theory Spec2Isabelle
  imports Main "HOL-Library.Char_ord" "HOL-Library.List_Lexorder"
begin

section \<open>Strings\<close>

text \<open>
  A Python \<open>str\<close> is modelled by the \<open>string\<close> of its UTF-8 bytes. The delimiters the
  program looks for are all ASCII, and no byte of a multi-byte UTF-8 sequence is ASCII, so
  searching, splitting and stripping agree on both views. \<open>str.lower\<close> is modelled on the
  ASCII letters; \<open>\s\<close> of the \<open>re\<close> module on the ASCII characters for which
  \<open>str.isspace\<close> holds (documents with non-ASCII white space are outside the model).
\<close>

definition is_upper :: "char \<Rightarrow> bool" where
  "is_upper c = (CHR ''A'' \<le> c \<and> c \<le> CHR ''Z'')"

definition is_lower :: "char \<Rightarrow> bool" where
  "is_lower c = (CHR ''a'' \<le> c \<and> c \<le> CHR ''z'')"

definition is_digit :: "char \<Rightarrow> bool" where
  "is_digit c = (CHR ''0'' \<le> c \<and> c \<le> CHR ''9'')"

definition lower_char :: "char \<Rightarrow> char" where
  "lower_char c = (if is_upper c then char_of (of_char c + (32::nat)) else c)"

definition lower :: "string \<Rightarrow> string" where
  "lower s = map lower_char s"

definition endswith :: "string \<Rightarrow> string \<Rightarrow> bool" where
  "endswith s suf = (length suf \<le> length s \<and> drop (length s - length suf) s = suf)"

definition endswith_any :: "string \<Rightarrow> string list \<Rightarrow> bool" where
  "endswith_any s sufs = list_ex (endswith s) sufs"

definition lstrip :: "char \<Rightarrow> string \<Rightarrow> string" where
  "lstrip c s = dropWhile (\<lambda>x. x = c) s"

text \<open>\<open>s.split(c, 1)\<close> for a character \<open>c\<close> that occurs in \<open>s\<close>: the parts before and
  after its first occurrence.\<close>

definition split_first :: "char \<Rightarrow> string \<Rightarrow> string \<times> string" where
  "split_first c s = (takeWhile (\<lambda>x. x \<noteq> c) s, drop 1 (dropWhile (\<lambda>x. x \<noteq> c) s))"

section \<open>The standard library: \<open>urllib.parse\<close>\<close>

datatype exn = ValueError | DecodeError | OSError

record parsed =
  scheme :: string
  netloc :: string
  upath :: string
  params :: string
  query :: string
  fragment :: string

definition is_c0_or_space :: "char \<Rightarrow> bool" where
  "is_c0_or_space c = ((of_char c :: nat) \<le> 32)"

definition is_unsafe :: "char \<Rightarrow> bool" where
  "is_unsafe c = (c = CHR 0x09 \<or> c = CHR 0x0D \<or> c = CHR 0x0A)"

definition scheme_char :: "char \<Rightarrow> bool" where
  "scheme_char c = (is_lower c \<or> is_upper c \<or> is_digit c
     \<or> c = CHR ''+'' \<or> c = CHR ''-'' \<or> c = CHR ''.'')"

text \<open>The scheme is cut off at the first colon when the text before it is non-empty, starts
  with an ASCII letter and consists of scheme characters.\<close>

definition split_scheme :: "string \<Rightarrow> string \<times> string" where
  "split_scheme url =
     (let pre = takeWhile (\<lambda>x. x \<noteq> CHR '':'') url
      in if CHR '':'' \<in> set url \<and> pre \<noteq> [] \<and> (is_lower (hd pre) \<or> is_upper (hd pre))
            \<and> list_all scheme_char pre
         then (lower pre, drop (Suc (length pre)) url)
         else ([], url))"

definition netloc_delim :: "char \<Rightarrow> bool" where
  "netloc_delim c = (c = CHR ''/'' \<or> c = CHR ''?'' \<or> c = CHR ''#'')"

text \<open>\<open>_splitnetloc(url, 2)\<close>, given the text after the two slashes.\<close>

definition splitnetloc :: "string \<Rightarrow> string \<times> string" where
  "splitnetloc rest = (takeWhile (\<lambda>c. \<not> netloc_delim c) rest, dropWhile (\<lambda>c. \<not> netloc_delim c) rest)"

text \<open>
  \<open>urlsplit\<close>. It raises \<open>ValueError\<close> for an authority with unbalanced square brackets.
  Python also rejects a bracketed host that is not an IP literal and some non-ASCII
  authorities; the model accepts those, so it returns wherever Python does, with the same
  result.
\<close>

definition urlsplit :: "string \<Rightarrow> exn + parsed" where
  "urlsplit url0 =
     (let url1 = filter (\<lambda>c. \<not> is_unsafe c) (dropWhile is_c0_or_space url0);
          (sch, url2) = split_scheme url1;
          (host, url3) = (if take 2 url2 = ''//'' then splitnetloc (drop 2 url2) else ([], url2));
          (url4, frag) = (if CHR ''#'' \<in> set url3 then split_first CHR ''#'' url3 else (url3, []));
          (url5, qry) = (if CHR ''?'' \<in> set url4 then split_first CHR ''?'' url4 else (url4, []))
      in if (CHR ''['' \<in> set host) \<noteq> (CHR '']'' \<in> set host) then Inl ValueError
         else Inr \<lparr>scheme = sch, netloc = host, upath = url5, params = [],
                   query = qry, fragment = frag\<rparr>)"

definition uses_params :: "string list" where
  "uses_params = ['''', ''ftp'', ''hdl'', ''prospero'', ''http'', ''imap'', ''https'', ''shttp'',
     ''rtsp'', ''rtsps'', ''rtspu'', ''sip'', ''sips'', ''mms'', ''sftp'', ''tel'']"

text \<open>\<open>_splitparams\<close>: the parameters start at the first semicolon of the last path segment.\<close>

definition splitparams :: "string \<Rightarrow> string \<times> string" where
  "splitparams url =
     (let seg = rev (takeWhile (\<lambda>x. x \<noteq> CHR ''/'') (rev url));
          dir = take (length url - length seg) url
      in if CHR '';'' \<in> set seg
         then (dir @ takeWhile (\<lambda>x. x \<noteq> CHR '';'') seg, drop 1 (dropWhile (\<lambda>x. x \<noteq> CHR '';'') seg))
         else (url, []))"

definition urlparse :: "string \<Rightarrow> exn + parsed" where
  "urlparse url =
     (case urlsplit url of
        Inl e \<Rightarrow> Inl e
      | Inr p \<Rightarrow>
          if scheme p \<in> set uses_params \<and> CHR '';'' \<in> set (upath p)
          then (let (u, ps) = splitparams (upath p) in Inr (p\<lparr>upath := u, params := ps\<rparr>))
          else Inr p)"

definition hexval :: "char \<Rightarrow> nat option" where
  "hexval c =
     (if is_digit c then Some (of_char c - 48)
      else if CHR ''a'' \<le> c \<and> c \<le> CHR ''f'' then Some (of_char c - 87)
      else if CHR ''A'' \<le> c \<and> c \<le> CHR ''F'' then Some (of_char c - 55)
      else None)"

text \<open>
  \<open>unquote_to_bytes\<close> (\<open>_unquote_impl\<close>): every \<open>%XX\<close> with two hexadecimal digits becomes
  the byte \<open>XX\<close>, any other percent sign stays.
\<close>

fun unquote_to_bytes :: "string \<Rightarrow> string" where
  "unquote_to_bytes (c # h1 # h2 # rest) =
     (if c = CHR ''%'' then
        (case (hexval h1, hexval h2) of
           (Some a, Some b) \<Rightarrow> char_of (16 * a + b) # unquote_to_bytes rest
         | _ \<Rightarrow> c # unquote_to_bytes (h1 # h2 # rest))
      else c # unquote_to_bytes (h1 # h2 # rest))"
| "unquote_to_bytes (c # rest) = c # unquote_to_bytes rest"
| "unquote_to_bytes [] = []"

text \<open>
  \<open>bytes.decode('utf-8', 'replace')\<close>, the result again written in UTF-8: a well-formed
  sequence is kept, and every maximal ill-formed part (a byte that cannot start a sequence,
  or the well-formed beginning of a sequence that is cut short) becomes U+FFFD.
\<close>

definition in_range :: "nat \<Rightarrow> nat \<Rightarrow> char \<Rightarrow> bool" where
  "in_range lo hi c = (lo \<le> of_char c \<and> (of_char c :: nat) \<le> hi)"

definition is_ascii :: "char \<Rightarrow> bool" where
  "is_ascii c = in_range 0 0x7F c"

definition is_cont :: "char \<Rightarrow> bool" where
  "is_cont c = in_range 0x80 0xBF c"

definition second_ok :: "char \<Rightarrow> char \<Rightarrow> bool" where
  "second_ok b c =
     in_range (if b = CHR 0xE0 then 0xA0 else if b = CHR 0xF0 then 0x90 else 0x80)
              (if b = CHR 0xED then 0x9F else if b = CHR 0xF4 then 0x8F else 0xBF) c"

definition replacement :: string where
  "replacement = [CHR 0xEF, CHR 0xBF, CHR 0xBD]"

fun utf8_replace :: "string \<Rightarrow> string" where
  "utf8_replace [] = []"
| "utf8_replace (b # bs) =
     (if is_ascii b then b # utf8_replace bs
      else if in_range 0xC2 0xDF b then
        (case bs of
           [] \<Rightarrow> replacement
         | c1 # r1 \<Rightarrow>
             if is_cont c1 then b # c1 # utf8_replace r1 else replacement @ utf8_replace bs)
      else if in_range 0xE0 0xEF b then
        (case bs of
           [] \<Rightarrow> replacement
         | c1 # r1 \<Rightarrow>
             if \<not> second_ok b c1 then replacement @ utf8_replace bs
             else (case r1 of
                     [] \<Rightarrow> replacement
                   | c2 # r2 \<Rightarrow>
                       if is_cont c2 then b # c1 # c2 # utf8_replace r2
                       else replacement @ utf8_replace r1))
      else if in_range 0xF0 0xF4 b then
        (case bs of
           [] \<Rightarrow> replacement
         | c1 # r1 \<Rightarrow>
             if \<not> second_ok b c1 then replacement @ utf8_replace bs
             else (case r1 of
                     [] \<Rightarrow> replacement
                   | c2 # r2 \<Rightarrow>
                       if \<not> is_cont c2 then replacement @ utf8_replace r1
                       else (case r2 of
                               [] \<Rightarrow> replacement
                             | c3 # r3 \<Rightarrow>
                                 if is_cont c3 then b # c1 # c2 # c3 # utf8_replace r3
                                 else replacement @ utf8_replace r2)))
      else replacement @ utf8_replace bs)"

text \<open>
  \<open>unquote\<close> with its defaults \<open>encoding='utf-8', errors='replace'\<close>: the text is cut into
  its runs of ASCII characters and its runs of other characters; each ASCII run is
  percent-decoded to bytes and the bytes decoded as UTF-8, the other runs are kept.
\<close>

function unquote :: "string \<Rightarrow> string" where
  "unquote [] = []"
| "unquote (c # cs) =
     (if is_ascii c
      then utf8_replace (unquote_to_bytes (takeWhile is_ascii (c # cs)))
             @ unquote (dropWhile is_ascii (c # cs))
      else takeWhile (\<lambda>x. \<not> is_ascii x) (c # cs)
             @ unquote (dropWhile (\<lambda>x. \<not> is_ascii x) (c # cs)))"
  by pat_completeness auto
termination
  by (relation "measure length") (auto simp: less_Suc_eq_le length_dropWhile_le)

section \<open>The standard library: \<open>base64\<close>\<close>

definition b64val :: "char \<Rightarrow> nat option" where
  "b64val c =
     (if is_upper c then Some (of_char c - 65)
      else if is_lower c then Some (of_char c - 71)
      else if is_digit c then Some (of_char c + 4)
      else if c = CHR ''+'' then Some 62
      else if c = CHR ''/'' then Some 63
      else None)"

text \<open>
  \<open>binascii.a2b_base64\<close> in its default, non-strict mode. The state is the position in the
  current group of four, the bits left over, the run of padding characters and the bytes
  produced (in reverse). Characters outside the alphabet are skipped; padding that completes
  a group ends the decoding; a group left incomplete at the end of the input is an error.
\<close>

fun a2b_base64 :: "nat \<Rightarrow> nat \<Rightarrow> nat \<Rightarrow> string \<Rightarrow> string \<Rightarrow> exn + string" where
  "a2b_base64 quad leftchar pads acc [] =
     (if quad \<noteq> 0 then Inl DecodeError else Inr (rev acc))"
| "a2b_base64 quad leftchar pads acc (c # cs) =
     (if c = CHR ''='' then
        (if quad \<ge> 2 \<and> quad + (pads + 1) \<ge> 4 then Inr (rev acc)
         else a2b_base64 quad leftchar (if quad \<ge> 2 then pads + 1 else pads) acc cs)
      else
        (case b64val c of
           None \<Rightarrow> a2b_base64 quad leftchar pads acc cs
         | Some v \<Rightarrow>
             (if quad = 0 then a2b_base64 1 v 0 acc cs
              else if quad = 1 then
                a2b_base64 2 (v mod 16) 0 (char_of (leftchar * 4 + v div 16) # acc) cs
              else if quad = 2 then
                a2b_base64 3 (v mod 4) 0 (char_of (leftchar * 16 + v div 4) # acc) cs
              else a2b_base64 0 0 0 (char_of (leftchar * 64 + v) # acc) cs)))"

text \<open>\<open>base64.b64decode\<close> of a \<open>str\<close>: a non-ASCII character raises \<open>ValueError\<close>.\<close>

definition b64decode :: "string \<Rightarrow> exn + string" where
  "b64decode s =
     (if list_ex (\<lambda>c. (of_char c :: nat) \<ge> 128) s then Inl ValueError
      else a2b_base64 0 0 0 [] s)"

section \<open>The operating system: paths and files\<close>

text \<open>
  A file system maps the absolute, resolved location of a node (the list of its directory
  names from the root) to a file with its bytes or to a directory. The root is a directory.
  There are no symbolic links. The environment fixes the working directory and the
  locations the system refuses to create or to open for writing (permissions, quotas, name
  lengths).
\<close>

type_synonym path = "string list"

datatype node = File string | Dir

type_synonym filesystem = "(path \<times> node) list"

record os =
  cwd :: path
  denied :: "path \<Rightarrow> bool"

definition node_at :: "filesystem \<Rightarrow> path \<Rightarrow> node option" where
  "node_at fs p = (if p = [] then Some Dir else map_of fs p)"

definition file_at :: "filesystem \<Rightarrow> path \<Rightarrow> string option" where
  "file_at fs p = (case node_at fs p of Some (File d) \<Rightarrow> Some d | _ \<Rightarrow> None)"

fun split_on :: "char \<Rightarrow> string \<Rightarrow> string list" where
  "split_on c [] = [[]]"
| "split_on c (x # xs) =
     (if x = c then [] # split_on c xs
      else (case split_on c xs of w # ws \<Rightarrow> (x # w) # ws | [] \<Rightarrow> [[x]]))"

definition startswith :: "string \<Rightarrow> string \<Rightarrow> bool" where
  "startswith s pre = (take (length pre) s = pre)"

text \<open>\<open>os.path.join\<close> of two parts and \<open>os.path.dirname\<close>, as \<open>posixpath\<close> has them.\<close>

definition path_join :: "string \<Rightarrow> string \<Rightarrow> string" where
  "path_join a b =
     (if startswith b ''/'' then b
      else if a = [] \<or> endswith a ''/'' then a @ b
      else a @ ''/'' @ b)"

definition rstrip :: "char \<Rightarrow> string \<Rightarrow> string" where
  "rstrip c s = rev (dropWhile (\<lambda>x. x = c) (rev s))"

definition dirname :: "string \<Rightarrow> string" where
  "dirname p =
     (let head = take (length p - length (takeWhile (\<lambda>x. x \<noteq> CHR ''/'') (rev p))) p
      in if head \<noteq> [] \<and> \<not> list_all (\<lambda>x. x = CHR ''/'') head then rstrip CHR ''/'' head
         else head)"

definition basename :: "string \<Rightarrow> string" where
  "basename p = rev (takeWhile (\<lambda>x. x \<noteq> CHR ''/'') (rev p))"

definition start_dir :: "os \<Rightarrow> string \<Rightarrow> path" where
  "start_dir sys p = (if startswith p ''/'' then [] else cwd sys)"

text \<open>
  Following the names of a path from a directory. An empty name and \<open>.\<close> stay, \<open>..\<close> goes
  to the parent, any other name must be a directory. With \<open>create\<close>, a missing directory is
  made, as \<open>os.makedirs\<close> does on its way down; what was made stays when a later name fails.
\<close>

fun follow :: "bool \<Rightarrow> os \<Rightarrow> filesystem \<Rightarrow> path \<Rightarrow> string list \<Rightarrow> filesystem \<times> (exn + path)" where
  "follow create sys fs cur [] = (fs, Inr cur)"
| "follow create sys fs cur (c # cs) =
     (if c = [] \<or> c = ''.'' then follow create sys fs cur cs
      else if c = ''..'' then follow create sys fs (butlast cur) cs
      else
        (case node_at fs (cur @ [c]) of
           Some Dir \<Rightarrow> follow create sys fs (cur @ [c]) cs
         | Some (File d) \<Rightarrow> (fs, Inl OSError)
         | None \<Rightarrow>
             if create \<and> \<not> denied sys (cur @ [c])
             then follow create sys ((cur @ [c], Dir) # fs) (cur @ [c]) cs
             else (fs, Inl OSError)))"

text \<open>\<open>os.makedirs(name, exist_ok=True)\<close>: the empty name is an error.\<close>

definition makedirs :: "os \<Rightarrow> filesystem \<Rightarrow> string \<Rightarrow> filesystem \<times> exn option" where
  "makedirs sys fs name =
     (if name = [] then (fs, Some OSError)
      else (case follow True sys fs (start_dir sys name) (split_on CHR ''/'' name) of
              (fs', Inl ex) \<Rightarrow> (fs', Some ex)
            | (fs', Inr d) \<Rightarrow> (fs', None)))"

text \<open>
  \<open>open(path, 'w')\<close> or \<open>'wb'\<close> followed by \<open>write(data)\<close>: the directory of the file must
  exist, the file itself must not be a directory, and the file then holds exactly the data.
  A text is written as its UTF-8 bytes, without newline translation.
\<close>

definition write_file :: "os \<Rightarrow> filesystem \<Rightarrow> string \<Rightarrow> string \<Rightarrow> filesystem \<times> exn option" where
  "write_file sys fs p data =
     (let names = split_on CHR ''/'' p; name = last names
      in case follow False sys fs (start_dir sys p) (butlast names) of
           (fs', Inl ex) \<Rightarrow> (fs, Some ex)
         | (fs', Inr d) \<Rightarrow>
             if name = [] \<or> name = ''.'' \<or> name = ''..'' \<or> node_at fs (d @ [name]) = Some Dir
                \<or> denied sys (d @ [name])
             then (fs, Some OSError)
             else ((d @ [name], File data) # fs, None))"

text \<open>Where \<open>open\<close> finds the file of a path, when its directory exists.\<close>

definition locate :: "os \<Rightarrow> filesystem \<Rightarrow> string \<Rightarrow> path option" where
  "locate sys fs p =
     (let names = split_on CHR ''/'' p
      in case follow False sys fs (start_dir sys p) (butlast names) of
           (fs', Inl ex) \<Rightarrow> None
         | (fs', Inr d) \<Rightarrow>
             if last names = [] \<or> last names = ''.'' then Some d
             else if last names = ''..'' then Some (butlast d)
             else Some (d @ [last names]))"

definition read_file :: "os \<Rightarrow> filesystem \<Rightarrow> string \<Rightarrow> string option" where
  "read_file sys fs p = (case locate sys fs p of None \<Rightarrow> None | Some l \<Rightarrow> file_at fs l)"

section \<open>The extractor\<close>

text \<open>\<open>safe_write\<close>, lines 10 to 14.\<close>

definition safe_write :: "os \<Rightarrow> filesystem \<Rightarrow> string \<Rightarrow> string \<Rightarrow> filesystem \<times> exn option" where
  "safe_write sys fs p data =
     (case makedirs sys fs (dirname p) of
        (fs', Some ex) \<Rightarrow> (fs', Some ex)
      | (fs', None) \<Rightarrow> write_file sys fs' p data)"

text \<open>
  An entry of the HAR document, with the fields the program reads: \<open>request.url\<close>,
  \<open>response.status\<close>, \<open>response.content.text\<close> and \<open>response.content.encoding\<close>. A field that
  is missing or \<open>null\<close> is \<open>None\<close>.
\<close>

record entry =
  req_url :: "string option"
  resp_status :: "int option"
  content_text :: "string option"
  content_encoding :: "string option"

datatype logline =
    Reading_HAR string
  | SKIP_no_body string "int option"
  | WROTE string
  | ERROR_writing string exn
  | Extraction_complete nat string

record xstate =
  files :: filesystem
  hosts :: "string set"
  written :: nat
  stdout :: "logline list"


definition IMAGE_EXTS :: "string list" where
  "IMAGE_EXTS = [''.png'', ''.jpg'', ''.jpeg'', ''.gif'', ''.webp'', ''.svg'', ''.ico'']"

text \<open>Lines 33 to 35 of \<open>extract_har\<close>: the local path of a parsed URL.\<close>

definition local_path :: "parsed \<Rightarrow> string" where
  "local_path p =
     (let pth = unquote (lstrip CHR ''/'' (upath p))
      in if pth = [] then netloc p @ ''/index.html'' else pth)"

text \<open>The body of the \<open>try\<close> statement, lines 51 to 55: the exception it raises, if any.\<close>

definition write_body :: "os \<Rightarrow> filesystem \<Rightarrow> string \<Rightarrow> entry \<Rightarrow> string \<Rightarrow> filesystem \<times> exn option" where
  "write_body sys fs out_path e txt =
     (if content_encoding e = Some ''base64'' then
        (case b64decode txt of
           Inl ex \<Rightarrow> (fs, Some ex)
         | Inr data \<Rightarrow> safe_write sys fs out_path data)
      else safe_write sys fs out_path txt)"

text \<open>
  One round of the loop of \<open>extract_har\<close>, lines 24 to 59. \<open>Inl\<close> is an exception that leaves
  the loop: only \<open>urlparse\<close> is called outside the \<open>try\<close> statement.
\<close>

definition extract_entry :: "os \<Rightarrow> string \<Rightarrow> entry \<Rightarrow> xstate \<Rightarrow> exn + xstate" where
  "extract_entry sys out_dir e st =
     (case req_url e of
        None \<Rightarrow> Inr st
      | Some url \<Rightarrow>
          if url = [] then Inr st
          else
            (case urlparse url of
               Inl ex \<Rightarrow> Inl ex
             | Inr p \<Rightarrow>
                 if netloc p = [] then Inr st
                 else
                   (let st1 = st\<lparr>hosts := insert (netloc p) (hosts st)\<rparr>;
                        pth = local_path p
                    in if endswith_any (lower pth) IMAGE_EXTS then Inr st1
                       else
                         (let out_path = path_join out_dir pth
                          in case content_text e of
                               None \<Rightarrow>
                                 Inr (st1\<lparr>stdout := stdout st1 @ [SKIP_no_body url (resp_status e)]\<rparr>)
                             | Some txt \<Rightarrow>
                                 (case write_body sys (files st1) out_path e txt of
                                    (fs', None) \<Rightarrow>
                                      Inr (st1\<lparr>files := fs', written := written st1 + 1,
                                                stdout := stdout st1 @ [WROTE out_path]\<rparr>)
                                  | (fs', Some ex) \<Rightarrow>
                                      Inr (st1\<lparr>files := fs',
                                                stdout := stdout st1 @ [ERROR_writing out_path ex]\<rparr>))))))"

fun extract_entries :: "os \<Rightarrow> string \<Rightarrow> entry list \<Rightarrow> xstate \<Rightarrow> exn + xstate" where
  "extract_entries sys out_dir [] st = Inr st"
| "extract_entries sys out_dir (e # es) st =
     (case extract_entry sys out_dir e st of
        Inl ex \<Rightarrow> Inl ex
      | Inr st' \<Rightarrow> extract_entries sys out_dir es st')"

definition join_lines :: "string list \<Rightarrow> string" where
  "join_lines xs = concat (case xs of [] \<Rightarrow> [] | y # ys \<Rightarrow> y # map (\<lambda>z. CHR 0x0A # z) ys)"

definition hosts_path :: "string \<Rightarrow> string" where
  "hosts_path out_dir = path_join out_dir ''extracted_hosts.txt''"

text \<open>The state before the loop, lines 17 to 22, and the end of \<open>extract_har\<close>, lines 60 to
  63: the summary line, the file of the hosts (opened without a \<open>try\<close>) and the return.\<close>

definition initial :: "filesystem \<Rightarrow> string \<Rightarrow> xstate" where
  "initial fs har_path = \<lparr>files = fs, hosts = {}, written = 0, stdout = [Reading_HAR har_path]\<rparr>"

definition write_hosts :: "os \<Rightarrow> string \<Rightarrow> xstate \<Rightarrow> exn + xstate" where
  "write_hosts sys out_dir st =
     (let st1 = st\<lparr>stdout := stdout st @ [Extraction_complete (written st) out_dir]\<rparr>
      in case write_file sys (files st1) (hosts_path out_dir)
                (join_lines (sorted_list_of_set (hosts st1))) of
           (fs', Some ex) \<Rightarrow> Inl ex
         | (fs', None) \<Rightarrow> Inr (st1\<lparr>files := fs'\<rparr>))"

text \<open>\<open>extract_har\<close>, given the entries of the parsed HAR document.\<close>

definition extract_har :: "os \<Rightarrow> filesystem \<Rightarrow> string \<Rightarrow> entry list \<Rightarrow> string \<Rightarrow> exn + xstate" where
  "extract_har sys fs har_path entries out_dir =
     (case extract_entries sys out_dir entries (initial fs har_path) of
        Inl ex \<Rightarrow> Inl ex
      | Inr st \<Rightarrow> write_hosts sys out_dir st)"

section \<open>The standard library: \<open>re\<close> and \<open>str\<close>\<close>

text \<open>
  The patterns of the program are sequences of items: a class of characters taken once, at
  most once (\<open>?\<close>), any number of times (\<open>*\<close>) or at least once (\<open>+\<close>), or \<open>\s+\<close>; with at
  most one group. The classes other than \<open>\s\<close> are tested byte by byte: each is a single
  ASCII character or the complement of one, and is followed in its pattern by an ASCII
  character, so that a match never ends inside a UTF-8 sequence. \<open>\s\<close> is tested on whole
  characters: it holds of the ASCII white space and of U+0085, U+00A0, U+1680, U+2000 to
  U+200A, U+2028, U+2029, U+202F, U+205F and U+3000, which take two or three bytes.
  The matcher is the backtracking one of \<open>re\<close>: an item takes as many characters as it can
  and gives them back one by one while the rest of the pattern fails. A match is reported by
  the number of bytes each item took.
\<close>

datatype quant = One | Opt | Star | Plus

datatype atom = Cls quant "char \<Rightarrow> bool" | Spaces

definition is_space :: "char \<Rightarrow> bool" where
  "is_space c = (c = CHR '' '' \<or> (CHR 0x09 \<le> c \<and> c \<le> CHR 0x0D) \<or> (CHR 0x1C \<le> c \<and> c \<le> CHR 0x1F))"

definition wide_spaces :: "string list" where
  "wide_spaces =
     [[CHR 0xC2, CHR 0x85], [CHR 0xC2, CHR 0xA0], [CHR 0xE1, CHR 0x9A, CHR 0x80],
      [CHR 0xE2, CHR 0x80, CHR 0x80], [CHR 0xE2, CHR 0x80, CHR 0x81],
      [CHR 0xE2, CHR 0x80, CHR 0x82], [CHR 0xE2, CHR 0x80, CHR 0x83],
      [CHR 0xE2, CHR 0x80, CHR 0x84], [CHR 0xE2, CHR 0x80, CHR 0x85],
      [CHR 0xE2, CHR 0x80, CHR 0x86], [CHR 0xE2, CHR 0x80, CHR 0x87],
      [CHR 0xE2, CHR 0x80, CHR 0x88], [CHR 0xE2, CHR 0x80, CHR 0x89],
      [CHR 0xE2, CHR 0x80, CHR 0x8A], [CHR 0xE2, CHR 0x80, CHR 0xA8],
      [CHR 0xE2, CHR 0x80, CHR 0xA9], [CHR 0xE2, CHR 0x80, CHR 0xAF],
      [CHR 0xE2, CHR 0x81, CHR 0x9F], [CHR 0xE3, CHR 0x80, CHR 0x80]]"

text \<open>The number of bytes of the white-space character at the head of a text, 0 if none.\<close>

definition space_len :: "string \<Rightarrow> nat" where
  "space_len s =
     (case s of
        [] \<Rightarrow> 0
      | c # cs \<Rightarrow>
          if is_space c then 1
          else if is_ascii c then 0
          else (case find (startswith s) wide_spaces of None \<Rightarrow> 0 | Some t \<Rightarrow> length t))"

text \<open>
  The ends of the white-space characters at the head of a text, as offsets from its start.
\<close>

function space_ends :: "string \<Rightarrow> nat list" where
  "space_ends [] = []"
| "space_ends (c # cs) =
     (let n = space_len (c # cs)
      in if n = 0 then [] else n # map ((+) n) (space_ends (drop (n - 1) cs)))"
  by pat_completeness auto
termination
  by (relation "measure length") (auto simp: less_Suc_eq_le)

record regex =
  atoms :: "atom list"
  gstart :: nat
  glen :: nat

record mtch =
  g0 :: string
  g1 :: string

fun bounds :: "quant \<Rightarrow> nat \<Rightarrow> nat \<times> nat" where
  "bounds One n = (1, min 1 n)"
| "bounds Opt n = (0, min 1 n)"
| "bounds Star n = (0, n)"
| "bounds Plus n = (1, n)"

primrec try_down :: "(nat \<Rightarrow> 'a option) \<Rightarrow> nat \<Rightarrow> nat \<Rightarrow> 'a option" where
  "try_down f lo 0 = (if lo = 0 then f 0 else None)"
| "try_down f lo (Suc h) =
     (if Suc h < lo then None
      else (case f (Suc h) of Some r \<Rightarrow> Some r | None \<Rightarrow> try_down f lo h))"

fun match_atoms :: "atom list \<Rightarrow> string \<Rightarrow> nat list option" where
  "match_atoms [] s = Some []"
| "match_atoms (Cls q P # as) s =
     (let n = length (takeWhile P s)
      in try_down (\<lambda>k. map_option (Cons k) (match_atoms as (drop k s)))
           (fst (bounds q n)) (snd (bounds q n)))"
| "match_atoms (Spaces # as) s =
     (let ends = 0 # space_ends s
      in try_down (\<lambda>k. map_option (Cons (ends ! k)) (match_atoms as (drop (ends ! k) s)))
           1 (length ends - 1))"

text \<open>\<open>pattern.match\<close> at the start of a text: group 0 and group 1 of the match.\<close>

definition match_at :: "regex \<Rightarrow> string \<Rightarrow> mtch option" where
  "match_at r s =
     (case match_atoms (atoms r) s of
        None \<Rightarrow> None
      | Some ks \<Rightarrow>
          Some \<lparr>g0 = take (sum_list ks) s,
                g1 = take (sum_list (take (glen r) (drop (gstart r) ks)))
                       (drop (sum_list (take (gstart r) ks)) s)\<rparr>)"

text \<open>
  The scan of \<open>re.sub\<close>: from left to right, the leftmost match at each point, the next
  search starting behind it. No pattern of the program matches the empty text; a pattern
  that did would be treated here as not matching at that point.
\<close>

datatype piece = Text char | Match mtch

function pieces :: "regex \<Rightarrow> string \<Rightarrow> piece list" where
  "pieces r [] = []"
| "pieces r (c # cs) =
     (case match_at r (c # cs) of
        None \<Rightarrow> Text c # pieces r cs
      | Some m \<Rightarrow>
          if g0 m = [] then Text c # pieces r cs
          else Match m # pieces r (drop (length (g0 m) - 1) cs))"
  by pat_completeness auto
termination
  by (relation "measure (\<lambda>(r, s). length s)") auto

text \<open>\<open>re.sub\<close> with a replacement function that returns, and with one that may raise.\<close>

definition resub :: "regex \<Rightarrow> (mtch \<Rightarrow> string) \<Rightarrow> string \<Rightarrow> string" where
  "resub r f s = concat (map (\<lambda>p. case p of Text c \<Rightarrow> [c] | Match m \<Rightarrow> f m) (pieces r s))"

fun subst_pieces :: "(mtch \<Rightarrow> exn + string) \<Rightarrow> piece list \<Rightarrow> exn + string" where
  "subst_pieces f [] = Inr []"
| "subst_pieces f (Text c # ps) =
     (case subst_pieces f ps of Inl ex \<Rightarrow> Inl ex | Inr rest \<Rightarrow> Inr (c # rest))"
| "subst_pieces f (Match m # ps) =
     (case f m of
        Inl ex \<Rightarrow> Inl ex
      | Inr rep \<Rightarrow> (case subst_pieces f ps of Inl ex \<Rightarrow> Inl ex | Inr rest \<Rightarrow> Inr (rep @ rest)))"

definition resub_e :: "regex \<Rightarrow> (mtch \<Rightarrow> exn + string) \<Rightarrow> string \<Rightarrow> exn + string" where
  "resub_e r f s = subst_pieces f (pieces r s)"

text \<open>\<open>sub in s\<close>.\<close>

primrec contains :: "string \<Rightarrow> string \<Rightarrow> bool" where
  "contains [] sub = (sub = [])"
| "contains (c # cs) sub = (startswith (c # cs) sub \<or> contains cs sub)"

text \<open>\<open>s.split(sep, 1)[-1]\<close> for a non-empty separator: what follows the first occurrence of
  the separator, or all of \<open>s\<close> without one.\<close>

fun after_first :: "string \<Rightarrow> string \<Rightarrow> string \<Rightarrow> string" where
  "after_first sep whole [] = whole"
| "after_first sep whole (c # cs) =
     (if startswith (c # cs) sep then drop (length sep) (c # cs) else after_first sep whole cs)"

text \<open>\<open>s.split(sep, 1)[-1]\<close>: an empty separator raises \<open>ValueError\<close>.\<close>

definition split1_last :: "string \<Rightarrow> string \<Rightarrow> exn + string" where
  "split1_last s sep = (if sep = [] then Inl ValueError else Inr (after_first sep s s))"

text \<open>\<open>s.split(c, n)[-1]\<close> for a character.\<close>

fun splitn_last :: "char \<Rightarrow> nat \<Rightarrow> string \<Rightarrow> string" where
  "splitn_last c 0 s = s"
| "splitn_last c (Suc n) s =
     (if c \<in> set s then splitn_last c n (drop 1 (dropWhile (\<lambda>x. x \<noteq> c) s)) else s)"

text \<open>\<open>s.replace(old, new)\<close> for a non-empty \<open>old\<close>.\<close>

function replace_all :: "string \<Rightarrow> string \<Rightarrow> string \<Rightarrow> string" where
  "replace_all old new [] = []"
| "replace_all old new (c # cs) =
     (if old \<noteq> [] \<and> startswith (c # cs) old
      then new @ replace_all old new (drop (length old - 1) cs)
      else c # replace_all old new cs)"
  by pat_completeness auto
termination
  by (relation "measure (\<lambda>(old, new, s). length s)") auto

section \<open>The patcher\<close>

definition dq :: char where
  "dq = CHR 0x22"

definition sq :: char where
  "sq = CHR 0x27"

definition lits :: "string \<Rightarrow> atom list" where
  "lits s = map (\<lambda>c. Cls One (\<lambda>x. x = c)) s"

text \<open>\<^verbatim>\<open><script[^>]+src="([^"]+)"\<close> and \<^verbatim>\<open><link[^>]+href="([^"]+)"\<close>\<close>

definition script_re :: regex where
  "script_re =
     \<lparr>atoms = lits ''<script'' @ [Cls Plus (\<lambda>c. c \<noteq> CHR ''>'')] @ lits (''src='' @ [dq])
               @ [Cls Plus (\<lambda>c. c \<noteq> dq)] @ lits [dq],
      gstart = 13, glen = 1\<rparr>"

definition link_re :: regex where
  "link_re =
     \<lparr>atoms = lits ''<link'' @ [Cls Plus (\<lambda>c. c \<noteq> CHR ''>'')] @ lits (''href='' @ [dq])
               @ [Cls Plus (\<lambda>c. c \<noteq> dq)] @ lits [dq],
      gstart = 12, glen = 1\<rparr>"

text \<open>\<^verbatim>\<open>@import\s+url\(["\']?(https?://[^)]+)["\']?\)\<close>\<close>

definition import_re :: regex where
  "import_re =
     \<lparr>atoms = lits ''@import'' @ [Spaces] @ lits ''url('' @ [Cls Opt (\<lambda>c. c = dq \<or> c = sq)]
               @ lits ''http'' @ [Cls Opt (\<lambda>c. c = CHR ''s'')] @ lits ''://''
               @ [Cls Plus (\<lambda>c. c \<noteq> CHR '')'')] @ [Cls Opt (\<lambda>c. c = dq \<or> c = sq)] @ lits '')'',
      gstart = 13, glen = 9\<rparr>"

text \<open>\<^verbatim>\<open>https?://[^/]+/_next/static/\<close> and \<^verbatim>\<open>//[^/]+/_next/static/\<close>\<close>

definition next_re :: regex where
  "next_re =
     \<lparr>atoms = lits ''http'' @ [Cls Opt (\<lambda>c. c = CHR ''s'')] @ lits ''://''
               @ [Cls Plus (\<lambda>c. c \<noteq> CHR ''/'')] @ lits ''/_next/static/'',
      gstart = 0, glen = 0\<rparr>"

definition next_rel_re :: regex where
  "next_rel_re =
     \<lparr>atoms = lits ''//'' @ [Cls Plus (\<lambda>c. c \<noteq> CHR ''/'')] @ lits ''/_next/static/'',
      gstart = 0, glen = 0\<rparr>"

text \<open>\<^verbatim>\<open>\s+integrity="[^"]*"\<close> and \<^verbatim>\<open>\s+crossorigin="[^"]*"\<close>\<close>

definition integrity_re :: regex where
  "integrity_re =
     \<lparr>atoms = [Spaces] @ lits (''integrity='' @ [dq]) @ [Cls Star (\<lambda>c. c \<noteq> dq)] @ lits [dq],
      gstart = 0, glen = 0\<rparr>"

definition crossorigin_re :: regex where
  "crossorigin_re =
     \<lparr>atoms = [Spaces] @ lits (''crossorigin='' @ [dq]) @ [Cls Star (\<lambda>c. c \<noteq> dq)] @ lits [dq],
      gstart = 0, glen = 0\<rparr>"

text \<open>
  \<open>replacer\<close>, lines 78 to 86. The hosts are given in the order in which the loop over the
  set meets them.
\<close>

fun rewrite_host :: "string list \<Rightarrow> mtch \<Rightarrow> exn + string" where
  "rewrite_host [] m = Inr (g0 m)"
| "rewrite_host (host # hs) m =
     (if contains (g1 m) host then
        (case split1_last (g1 m) host of
           Inl ex \<Rightarrow> Inl ex
         | Inr rest \<Rightarrow> Inr (replace_all (g1 m) (''./'' @ lstrip CHR ''/'' rest) (g0 m)))
      else rewrite_host hs m)"

definition replacer :: "string list \<Rightarrow> mtch \<Rightarrow> exn + string" where
  "replacer hs m =
     (if endswith_any (lower (g1 m)) IMAGE_EXTS then Inr (g0 m) else rewrite_host hs m)"

definition import_repl :: "mtch \<Rightarrow> string" where
  "import_repl m = ''@import url('' @ [dq] @ ''./'' @ splitn_last CHR ''/'' 3 (g1 m) @ [dq] @ '')''"

text \<open>The text that \<open>patch_index\<close> writes back for the text it read, lines 89 to 101.\<close>

definition strip_attrs :: "string \<Rightarrow> string" where
  "strip_attrs s = resub crossorigin_re (\<lambda>m. []) (resub integrity_re (\<lambda>m. []) s)"

definition localize_static :: "string \<Rightarrow> string" where
  "localize_static s =
     resub next_rel_re (\<lambda>m. ''./_next/static/'') (resub next_re (\<lambda>m. ''./_next/static/'') s)"

definition patch_text :: "string list \<Rightarrow> string \<Rightarrow> exn + string" where
  "patch_text hs s =
     (case resub_e script_re (replacer hs) s of
        Inl ex \<Rightarrow> Inl ex
      | Inr s1 \<Rightarrow>
          (case resub_e link_re (replacer hs) s1 of
             Inl ex \<Rightarrow> Inl ex
           | Inr s2 \<Rightarrow> Inr (strip_attrs (localize_static (resub import_re import_repl s2)))))"

section \<open>Notions used in the statements\<close>

text \<open>The authority that an entry adds to the set of hosts, lines 24 to 32.\<close>

definition entry_host :: "entry \<Rightarrow> string option" where
  "entry_host e =
     (case req_url e of
        None \<Rightarrow> None
      | Some url \<Rightarrow>
          if url = [] then None
          else (case urlparse url of
                  Inl ex \<Rightarrow> None
                | Inr p \<Rightarrow> if netloc p = [] then None else Some (netloc p)))"

definition authorities :: "entry list \<Rightarrow> string set" where
  "authorities es = set (List.map_filter entry_host es)"

text \<open>The set as the specification words it: the authority of every entry whose URL is not
  empty, be the authority empty or not.\<close>

definition spec_authorities :: "entry list \<Rightarrow> string set" where
  "spec_authorities es =
     set (List.map_filter
            (\<lambda>e. case req_url e of
                   None \<Rightarrow> None
                 | Some url \<Rightarrow>
                     if url = [] then None
                     else (case urlparse url of Inl ex \<Rightarrow> None | Inr p \<Rightarrow> Some (netloc p))) es)"

text \<open>An environment that refuses nothing, with the root as working directory, and a file
  system in which the output directory \<open>out\<close> exists.\<close>

definition sys0 :: os where
  "sys0 = \<lparr>cwd = [], denied = (\<lambda>p. False)\<rparr>"

definition fs0 :: filesystem where
  "fs0 = [([''out''], Dir)]"

definition entry_of :: "string \<Rightarrow> string \<Rightarrow> entry" where
  "entry_of url txt =
     \<lparr>req_url = Some url, resp_status = Some 200, content_text = Some txt,
      content_encoding = None\<rparr>"

text \<open>The file of the hosts after \<open>extract_har\<close> has returned.\<close>

definition hosts_file_after :: "os \<Rightarrow> filesystem \<Rightarrow> entry list \<Rightarrow> string \<Rightarrow> string option" where
  "hosts_file_after sys fs entries out_dir =
     (case extract_har sys fs ''site.har'' entries out_dir of
        Inl ex \<Rightarrow> None
      | Inr st \<Rightarrow> read_file sys (files st) (hosts_path out_dir))"

definition har_data_url :: "entry list" where
  "har_data_url =
     [entry_of ''data:text/css,body{}'' ''body{}'',
      entry_of ''https://cdn.example.com/js/app.js'' ''let a;'',
      entry_of ''https://api.example.com/v1/x.json'' ''{}'']"

text \<open>A document in which the second entry needs \<open>js/app.js\<close> as a directory after the first
  has made it a file, and the state after the first entry.\<close>

definition har_clash :: "entry list" where
  "har_clash =
     [entry_of ''https://cdn.example.com/js/app.js'' ''let a;'',
      entry_of ''https://cdn.example.com/js/app.js/x.css'' ''body{}'',
      entry_of ''https://www.example.com/'' ''<html>'']"

definition st_clash :: xstate where
  "st_clash =
     \<lparr>files = [([''out'', ''js'', ''app.js''], File ''let a;''), ([''out'', ''js''], Dir),
               ([''out''], Dir)],
      hosts = {''cdn.example.com''}, written = 1,
      stdout = [Reading_HAR ''site.har'', WROTE ''out/js/app.js'']\<rparr>"





text \<open>A file system keeps another one outside a set of locations: directories stay
  directories, and a file outside the set stays the same file.\<close>

definition keeps :: "path set \<Rightarrow> filesystem \<Rightarrow> filesystem \<Rightarrow> bool" where
  "keeps T fs fs' =
     ((\<forall>q. node_at fs q = Some Dir \<longrightarrow> node_at fs' q = Some Dir) \<and>
      (\<forall>q d. q \<notin> T \<longrightarrow> file_at fs q = Some d \<longrightarrow> file_at fs' q = Some d))"

text \<open>A file after \<open>extract_har\<close> has returned.\<close>

definition file_after :: "os \<Rightarrow> filesystem \<Rightarrow> entry list \<Rightarrow> string \<Rightarrow> string \<Rightarrow> string option" where
  "file_after sys fs entries out_dir p =
     (case extract_har sys fs ''site.har'' entries out_dir of
        Inl ex \<Rightarrow> None
      | Inr st \<Rightarrow> read_file sys (files st) p)"





text \<open>Tags and attributes as they stand in a document.\<close>

definition quoted :: "string \<Rightarrow> string" where
  "quoted s = [dq] @ s @ [dq]"


definition img_tag :: "string \<Rightarrow> string" where
  "img_tag url = ''<img src='' @ quoted url @ ''>''"







text \<open>An entry whose path is that of the file of the hosts, with a slash at its end.\<close>

definition har_hosts_dir :: "entry list" where
  "har_hosts_dir = [entry_of ''https://cdn.example.com/extracted_hosts.txt/'' ''x'']"

text \<open>The URL of an entry is absent, empty, or parsed by \<open>urlparse\<close> without an exception.\<close>

definition parses :: "entry \<Rightarrow> bool" where
  "parses e = (case req_url e of None \<Rightarrow> True | Some url \<Rightarrow> url = [] \<or> \<not> isl (urlparse url))"

section \<open>Properties\<close>

lemma lstrip_only: "set s \<subseteq> {c} \<Longrightarrow> lstrip c s = []"
  by (auto simp: lstrip_def)

text \<open>
  C10. A URL path that consists of slashes only gives the local path \<open><host>/index.html\<close>,
  the same as an empty URL path.
\<close>

theorem C10_slash_only_path:
  "set (upath p) \<subseteq> {CHR ''/''} \<Longrightarrow>
     local_path p = netloc p @ ''/index.html'' \<and> local_path p = local_path (p\<lparr>upath := []\<rparr>)"
proof -
  assume "set (upath p) \<subseteq> {CHR ''/''}"
  then have "lstrip CHR ''/'' (upath p) = []"
    by (rule lstrip_only)
  moreover have "lstrip CHR ''/'' [] = []"
    by (simp add: lstrip_def)
  ultimately show ?thesis
    by (simp add: local_path_def)
qed

theorem C10_slash_only_path_witness:
  "urlparse ''https://example.com//'' =
     Inr \<lparr>scheme = ''https'', netloc = ''example.com'', upath = ''//'', params = [],
          query = [], fragment = []\<rparr>
   \<and> set ''//'' \<subseteq> {CHR ''/''}
   \<and> local_path \<lparr>scheme = ''https'', netloc = ''example.com'', upath = ''//'', params = [],
          query = [], fragment = []\<rparr> = ''example.com/index.html''"
proof -
  have "urlparse ''https://example.com//'' =
     Inr \<lparr>scheme = ''https'', netloc = ''example.com'', upath = ''//'', params = [],
          query = [], fragment = []\<rparr>"
    by code_simp
  then show ?thesis
    using C10_slash_only_path [of "\<lparr>scheme = ''https'', netloc = ''example.com'', upath = ''//'',
      params = [], query = [], fragment = []\<rparr>"]
    by simp
qed

lemma follow_False_fs: "follow False sys fs cur cs = (fs', r) \<Longrightarrow> fs' = fs"
  by (induction cs arbitrary: cur) (auto split: if_splits option.splits node.splits)

lemma follow_False_stable:
  "follow False sys fs cur cs = (fs, Inr d) \<Longrightarrow>
   (\<And>q. node_at fs q = Some Dir \<Longrightarrow> node_at fs2 q = Some Dir) \<Longrightarrow>
   follow False sys fs2 cur cs = (fs2, Inr d)"
  by (induction cs arbitrary: cur) (auto split: if_splits option.splits node.splits)

lemma node_at_Cons: "t \<noteq> [] \<Longrightarrow> node_at ((t, n) # fs) q = (if q = t then Some n else node_at fs q)"
  by (auto simp: node_at_def)

lemma locate_stable:
  assumes "locate sys fs p = Some t"
    and "\<And>q. node_at fs q = Some Dir \<Longrightarrow> node_at fs2 q = Some Dir"
  shows "locate sys fs2 p = Some t"
proof -
  obtain r where r: "follow False sys fs (start_dir sys p) (butlast (split_on CHR ''/'' p)) = (fs, r)"
    using follow_False_fs by (metis surj_pair)
  with assms(1) obtain d where d: "r = Inr d"
    by (cases r) (auto simp: locate_def Let_def)
  have "follow False sys fs2 (start_dir sys p) (butlast (split_on CHR ''/'' p)) = (fs2, Inr d)"
    using follow_False_stable [OF r [unfolded d] assms(2)] by simp
  with assms(1) r d show ?thesis
    by (simp add: locate_def Let_def)
qed

lemma write_file_ok:
  assumes "write_file sys fs p data = (fs', None)"
  shows "\<exists>t. fs' = (t, File data) # fs \<and> t \<noteq> [] \<and> node_at fs t \<noteq> Some Dir \<and> locate sys fs p = Some t"
  using assms unfolding write_file_def locate_def Let_def
  by (auto split: prod.splits sum.splits if_splits)

lemma read_after_write:
  assumes "write_file sys fs p data = (fs', None)"
  shows "read_file sys fs' p = Some data"
proof -
  from write_file_ok [OF assms] obtain t where
    t: "fs' = (t, File data) # fs" "t \<noteq> []" "node_at fs t \<noteq> Some Dir" "locate sys fs p = Some t"
    by blast
  have dirs: "\<And>q. node_at fs q = Some Dir \<Longrightarrow> node_at fs' q = Some Dir"
    using t by (auto simp: node_at_Cons)
  have "locate sys fs' p = Some t"
    by (rule locate_stable [OF t(4) dirs])
  then show ?thesis
    using t by (simp add: read_file_def file_at_def node_at_Cons)
qed

lemma extract_entry_hosts:
  "extract_entry sys out_dir e st = Inr st' \<Longrightarrow>
     hosts st' = hosts st \<union> set_option (entry_host e)"
  unfolding extract_entry_def entry_host_def Let_def
  by (auto split: option.splits sum.splits if_splits prod.splits)

lemma extract_entries_hosts:
  "extract_entries sys out_dir es st = Inr st' \<Longrightarrow> hosts st' = hosts st \<union> authorities es"
proof (induction es arbitrary: st)
  case Nil
  then show ?case by (simp add: authorities_def map_filter_simps)
next
  case (Cons e es)
  then show ?case
    by (auto simp: authorities_def map_filter_simps dest!: extract_entry_hosts split: sum.splits option.splits)
qed


text \<open>
  C3, as the code has it. After \<open>extract_har\<close> has returned, \<open>extracted_hosts.txt\<close> under
  the output directory holds the sorted authorities, one per line, of the entries whose URL
  is not empty and has a non-empty authority; an entry whose URL has no authority (a
  \<open>data:\<close> URL, a relative URL) is passed over and adds nothing.
\<close>

theorem C3_hosts_file:
  "extract_har sys fs har_path entries out_dir = Inr st \<Longrightarrow>
     hosts st = authorities entries \<and>
     read_file sys (files st) (hosts_path out_dir) =
       Some (join_lines (sorted_list_of_set (authorities entries)))"
  unfolding extract_har_def write_hosts_def initial_def Let_def
  by (auto split: sum.splits prod.splits option.splits
      dest!: extract_entries_hosts read_after_write)

text \<open>The set of the claim would hold the empty authority of the \<open>data:\<close> URL, and the file
  would start with an empty line.\<close>

theorem C3_counterexample:
  "hosts_file_after sys0 fs0 har_data_url ''out'' = Some (''api.example.com'' @ [CHR 0x0A] @ ''cdn.example.com'') \<and>
   join_lines (sorted_list_of_set (spec_authorities har_data_url)) =
     [CHR 0x0A] @ ''api.example.com'' @ [CHR 0x0A] @ ''cdn.example.com''"
  by code_simp

theorem C3_hosts_file_witness:
  "\<exists>st. extract_har sys0 fs0 ''site.har'' har_data_url ''out'' = Inr st \<and>
     hosts st = {''api.example.com'', ''cdn.example.com''} \<and>
     read_file sys0 (files st) (hosts_path ''out'') =
       Some (''api.example.com'' @ [CHR 0x0A] @ ''cdn.example.com'')"
proof -
  have "\<not> isl (extract_har sys0 fs0 ''site.har'' har_data_url ''out'')"
    by code_simp
  then obtain st where st: "extract_har sys0 fs0 ''site.har'' har_data_url ''out'' = Inr st"
    by (cases "extract_har sys0 fs0 ''site.har'' har_data_url ''out''") auto
  have a: "authorities har_data_url = {''api.example.com'', ''cdn.example.com''}"
    by code_simp
  have j: "join_lines (sorted_list_of_set {''api.example.com'', ''cdn.example.com''}) =
      ''api.example.com'' @ [CHR 0x0A] @ ''cdn.example.com''"
    by code_simp
  show ?thesis
    using C3_hosts_file [OF st] st unfolding a j by simp
qed

lemma extract_entries_append:
  "extract_entries sys out_dir (xs @ ys) st =
     (case extract_entries sys out_dir xs st of
        Inl ex \<Rightarrow> Inl ex
      | Inr st' \<Rightarrow> extract_entries sys out_dir ys st')"
  by (induction xs arbitrary: st) (auto split: sum.splits)

lemma extract_entry_parses:
  "parses e \<Longrightarrow> \<exists>st'. extract_entry sys out_dir e st = Inr st'"
  unfolding parses_def extract_entry_def Let_def
  by (auto split: option.splits sum.splits prod.splits)

lemma extract_entries_parses:
  "list_all parses es \<Longrightarrow> \<exists>st'. extract_entries sys out_dir es st = Inr st'"
proof (induction es arbitrary: st)
  case Nil
  then show ?case by simp
next
  case (Cons e es)
  from Cons.prems have "parses e" by simp
  from extract_entry_parses [OF this] obtain st1 where "extract_entry sys out_dir e st = Inr st1"
    by blast
  with Cons show ?case by simp
qed

lemma extract_entry_stdout:
  "extract_entry sys out_dir e st = Inr st' \<Longrightarrow> \<exists>ls. stdout st' = stdout st @ ls"
  unfolding extract_entry_def Let_def
  by (auto split: option.splits sum.splits prod.splits if_splits)

lemma extract_entries_stdout:
  "extract_entries sys out_dir es st = Inr st' \<Longrightarrow> \<exists>ls. stdout st' = stdout st @ ls"
proof (induction es arbitrary: st)
  case Nil
  then show ?case by simp
next
  case (Cons e es)
  then show ?case
    by (fastforce split: sum.splits dest!: extract_entry_stdout)
qed


lemma write_file_data:
  "snd (write_file sys fs p d) = snd (write_file sys fs p d')"
  unfolding write_file_def Let_def by (auto split: prod.splits sum.splits)

lemma extract_har_hosts_file:
  "extract_har sys fs har_path entries out_dir = Inr st \<Longrightarrow>
     read_file sys (files st) (hosts_path out_dir) =
       Some (join_lines (sorted_list_of_set (authorities entries)))"
  unfolding extract_har_def write_hosts_def initial_def Let_def
  by (auto split: sum.splits prod.splits option.splits
      dest!: extract_entries_hosts read_after_write)

text \<open>
  C6, as the code has it. An exception raised in the body of the \<open>try\<close> statement, by the
  decoding or by \<open>safe_write\<close>, is caught: the round ends normally, its only trace is the line
  \<open>ERROR writing\<close> with the path and the exception (and whatever directories were made),
  the count of written files is unchanged, and the loop goes on with the entries that
  follow. When the URLs of these entries are parsed without an exception the loop ends,
  the line is still in the output, and if the opening of the file of the hosts succeeds,
  \<open>extract_har\<close> returns and the file holds the sorted authorities of all the entries. The
  file of the hosts is opened outside the \<open>try\<close> statement: its failure ends the run.
\<close>

theorem C6_write_failure_caught:
  assumes "req_url e = Some url" and "url \<noteq> []" and "urlparse url = Inr p" and "netloc p \<noteq> []"
    and "\<not> endswith_any (lower (local_path p)) IMAGE_EXTS"
    and "content_text e = Some txt"
    and "extract_entries sys out_dir es1 (initial fs har_path) = Inr st"
    and "write_body sys (files st) (path_join out_dir (local_path p)) e txt = (fs', Some ex)"
    and "st' = st\<lparr>hosts := insert (netloc p) (hosts st), files := fs',
                   stdout := stdout st @ [ERROR_writing (path_join out_dir (local_path p)) ex]\<rparr>"
    and "list_all parses es2"
  shows "extract_entry sys out_dir e st = Inr st'
       \<and> written st' = written st
       \<and> extract_entries sys out_dir (es1 @ e # es2) (initial fs har_path) =
           extract_entries sys out_dir es2 st'
       \<and> (\<exists>st2. extract_entries sys out_dir es2 st' = Inr st2
            \<and> ERROR_writing (path_join out_dir (local_path p)) ex \<in> set (stdout st2)
            \<and> (snd (write_file sys (files st2) (hosts_path out_dir)
                      (join_lines (sorted_list_of_set (hosts st2)))) = None \<longrightarrow>
                 (\<exists>st3. extract_har sys fs har_path (es1 @ e # es2) out_dir = Inr st3
                    \<and> ERROR_writing (path_join out_dir (local_path p)) ex \<in> set (stdout st3)
                    \<and> read_file sys (files st3) (hosts_path out_dir) =
                        Some (join_lines (sorted_list_of_set (authorities (es1 @ e # es2)))))))"
proof -
  let ?err = "ERROR_writing (path_join out_dir (local_path p)) ex"
  let ?data = "\<lambda>st2. join_lines (sorted_list_of_set (hosts st2))"
  have step: "extract_entry sys out_dir e st = Inr st'"
    using assms(1-6,8,9) by (simp add: extract_entry_def Let_def)
  have loop: "extract_entries sys out_dir (es1 @ e # es2) (initial fs har_path) =
      extract_entries sys out_dir es2 st'"
    using assms(7) step by (simp add: extract_entries_append)
  from extract_entries_parses [OF assms(10)] obtain st2
    where rest: "extract_entries sys out_dir es2 st' = Inr st2"
    by blast
  from extract_entries_stdout [OF rest] obtain ls where "stdout st2 = stdout st' @ ls"
    by blast
  then have logged: "?err \<in> set (stdout st2)"
    using assms(9) by simp
  have fin: "\<exists>st3. extract_har sys fs har_path (es1 @ e # es2) out_dir = Inr st3
      \<and> ?err \<in> set (stdout st3)
      \<and> read_file sys (files st3) (hosts_path out_dir) =
          Some (join_lines (sorted_list_of_set (authorities (es1 @ e # es2))))"
    if ok: "snd (write_file sys (files st2) (hosts_path out_dir) (?data st2)) = None"
  proof -
    obtain fs3 where w: "write_file sys (files st2) (hosts_path out_dir) (?data st2) = (fs3, None)"
      using ok by (cases "write_file sys (files st2) (hosts_path out_dir) (?data st2)") auto
    let ?st3 = "st2\<lparr>stdout := stdout st2 @ [Extraction_complete (written st2) out_dir],
                     files := fs3\<rparr>"
    have har: "extract_har sys fs har_path (es1 @ e # es2) out_dir = Inr ?st3"
      using loop rest w by (simp add: extract_har_def write_hosts_def Let_def)
    from extract_har_hosts_file [OF har] have
      "read_file sys (files ?st3) (hosts_path out_dir) =
         Some (join_lines (sorted_list_of_set (authorities (es1 @ e # es2))))"
      by simp
    with har logged show ?thesis by simp
  qed
  show ?thesis
    using step loop assms(9) rest logged fin by simp
qed

text \<open>
  The entry \<open>extracted_hosts.txt/\<close>: \<open>safe_write\<close> makes the directory
  \<open>out/extracted_hosts.txt\<close> and fails to open the path that ends with a slash; the failure
  is caught and logged, and then the file of the hosts cannot be opened: \<open>extract_har\<close>
  raises, and no file of the hosts exists.
\<close>

theorem C6_counterexample:
  "map_sum id stdout (extract_entries sys0 ''out'' har_hosts_dir (initial fs0 ''site.har'')) =
     Inr [Reading_HAR ''site.har'', ERROR_writing ''out/extracted_hosts.txt/'' OSError] \<and>
   extract_har sys0 fs0 ''site.har'' har_hosts_dir ''out'' = Inl OSError \<and>
   hosts_file_after sys0 fs0 har_hosts_dir ''out'' = None"
  by code_simp


theorem C6_write_failure_caught_witness:
  "extract_entries sys0 ''out'' (take 1 har_clash) (initial fs0 ''site.har'') = Inr st_clash
   \<and> write_body sys0 (files st_clash) ''out/js/app.js/x.css'' (har_clash ! 1) ''body{}'' =
       (files st_clash, Some OSError)
   \<and> list_all parses (drop 2 har_clash)
   \<and> extract_entry sys0 ''out'' (har_clash ! 1) st_clash =
       Inr (st_clash\<lparr>stdout := stdout st_clash @ [ERROR_writing ''out/js/app.js/x.css'' OSError]\<rparr>)
   \<and> (\<exists>st3. extract_har sys0 fs0 ''site.har'' har_clash ''out'' = Inr st3
         \<and> ERROR_writing ''out/js/app.js/x.css'' OSError \<in> set (stdout st3)
         \<and> read_file sys0 (files st3) (hosts_path ''out'') =
             Some (join_lines (sorted_list_of_set (authorities har_clash))))"
proof -
  let ?e = "entry_of ''https://cdn.example.com/js/app.js/x.css'' ''body{}''"
  let ?p = "\<lparr>scheme = ''https'', netloc = ''cdn.example.com'', upath = ''/js/app.js/x.css'',
             params = [], query = [], fragment = []\<rparr>"
  let ?st' = "st_clash\<lparr>stdout := stdout st_clash @ [ERROR_writing ''out/js/app.js/x.css'' OSError]\<rparr>"
  let ?fs = "[([''out'', ''www.example.com'', ''index.html''], File ''<html>''),
              ([''out'', ''www.example.com''], Dir),
              ([''out'', ''js'', ''app.js''], File ''let a;''), ([''out'', ''js''], Dir),
              ([''out''], Dir)]"
  have split: "har_clash = take 1 har_clash @ ?e # drop 2 har_clash"
    and nth: "har_clash ! 1 = ?e"
    by (simp_all add: har_clash_def)
  have h1: "req_url ?e = Some ''https://cdn.example.com/js/app.js/x.css''"
    and h6: "content_text ?e = Some ''body{}''"
    by (simp_all add: entry_of_def)
  have h3: "urlparse ''https://cdn.example.com/js/app.js/x.css'' = Inr ?p"
    by code_simp
  have lp: "local_path ?p = ''js/app.js/x.css''"
    by code_simp
  have pj: "path_join ''out'' ''js/app.js/x.css'' = ''out/js/app.js/x.css''"
    by code_simp
  have h5: "\<not> endswith_any (lower (local_path ?p)) IMAGE_EXTS"
    unfolding lp by code_simp
  have h7: "extract_entries sys0 ''out'' (take 1 har_clash) (initial fs0 ''site.har'') = Inr st_clash"
    by code_simp
  have h8: "write_body sys0 (files st_clash) (path_join ''out'' (local_path ?p)) ?e ''body{}'' =
      (files st_clash, Some OSError)"
    unfolding lp pj by code_simp
  have h10: "list_all parses (drop 2 har_clash)"
    by code_simp
  have ins: "insert ''cdn.example.com'' (hosts st_clash) = hosts st_clash"
    by (simp add: st_clash_def)
  have fs2: "map_sum id files (extract_entries sys0 ''out'' (drop 2 har_clash) ?st') = Inr ?fs"
    by code_simp
  have open_ok: "snd (write_file sys0 ?fs (hosts_path ''out'') []) = None"
    by code_simp
  note inst = C6_write_failure_caught [OF h1 _ h3 _ h5 h6 h7 h8 refl h10, unfolded lp pj]
  then obtain st2 where
    rest: "extract_entries sys0 ''out'' (drop 2 har_clash) ?st' = Inr st2"
    and imp: "snd (write_file sys0 (files st2) (hosts_path ''out'')
                (join_lines (sorted_list_of_set (hosts st2)))) = None \<longrightarrow>
       (\<exists>st3. extract_har sys0 fs0 ''site.har'' (take 1 har_clash @ ?e # drop 2 har_clash) ''out'' = Inr st3
          \<and> ERROR_writing ''out/js/app.js/x.css'' OSError \<in> set (stdout st3)
          \<and> read_file sys0 (files st3) (hosts_path ''out'') =
              Some (join_lines (sorted_list_of_set (authorities (take 1 har_clash @ ?e # drop 2 har_clash)))))"
    by (auto simp: ins)
  have "files st2 = ?fs"
    using fs2 rest by simp
  then have "snd (write_file sys0 (files st2) (hosts_path ''out'')
      (join_lines (sorted_list_of_set (hosts st2)))) = None"
    using open_ok write_file_data [of sys0 ?fs "hosts_path ''out''" "[]"] by simp
  with imp have fin: "\<exists>st3. extract_har sys0 fs0 ''site.har'' har_clash ''out'' = Inr st3
         \<and> ERROR_writing ''out/js/app.js/x.css'' OSError \<in> set (stdout st3)
         \<and> read_file sys0 (files st3) (hosts_path ''out'') =
             Some (join_lines (sorted_list_of_set (authorities har_clash)))"
    unfolding split [symmetric] by simp
  show ?thesis
    using inst h7 h8 [unfolded lp pj] h10 fin unfolding nth by (simp add: ins)
qed









lemma keeps_mono: "keeps T fs fs' \<Longrightarrow> T \<subseteq> U \<Longrightarrow> keeps U fs fs'"
  by (auto simp: keeps_def)



































lemma image_entry_not_written:
  assumes "req_url e = Some url" and "urlparse url = Inr p"
    and "endswith_any (lower (local_path p)) IMAGE_EXTS"
    and "extract_entry sys out_dir e st = Inr st'"
  shows "files st' = files st \<and> written st' = written st \<and> stdout st' = stdout st"
  using assms by (auto simp: extract_entry_def Let_def split: if_splits)

text \<open>
  C2. An entry whose local path ends in an image extension writes no file (the lemma
  above), and the tag \<open><img src="https://cdn.example.com/logo.png">\<close> is left as it is. But an
  image URL under \<open>_next/static\<close> is rewritten to the local \<open>./_next/static/...\<close> by the
  substitution of line 96, which has no test for images, while the extractor has written no
  such file.
\<close>

theorem C2_static_image_rewritten:
  "patch_text [''cdn.example.com''] (img_tag ''https://cdn.example.com/_next/static/media/logo.png'') =
     Inr (img_tag ''./_next/static/media/logo.png'')
   \<and> file_after sys0 fs0 [entry_of ''https://cdn.example.com/_next/static/media/logo.png'' ''PNG'']
       ''out'' ''out/_next/static/media/logo.png'' = None
   \<and> patch_text [''cdn.example.com''] (img_tag ''https://cdn.example.com/logo.png'') =
       Inr (img_tag ''https://cdn.example.com/logo.png'')"
  by code_simp

end
